theory Spec2Isabelle
  imports Main
begin

section \<open>mysql\_fdw: the scan pipeline of the MySQL foreign-data wrapper\<close>

text \<open>
  A shallow embedding of \<^verbatim>\<open>mysql_fdw.c\<close>. Each C function that the properties below
  are about is a HOL function of the same name; a loop or a block of one is a function
  next to it. What the C code gets from outside the file is a parameter:
  \<^item> the functions of libc and of the host that it calls are the fields of an
    environment record \<open>env\<close>;
  \<^item> the MySQL server, as seen through the client library, is a record \<open>server\<close>;
  \<^item> the client library's handles, the queries sent and the diagnostics emitted are
    the mutable state \<open>backend\<close>, passed in and returned.
  \<^verbatim>\<open>ereport(ERROR, ...)\<close> leaves the function: the model returns \<open>Inl\<close> of the error.
  A memory access that C leaves undefined is an error value \<open>Fault\<close> of its own.
  A C string is the list of its bytes before the terminator, so \<^verbatim>\<open>strlen\<close> is
  \<open>length\<close>; a \<^verbatim>\<open>char *\<close> that may be \<^verbatim>\<open>NULL\<close> is a \<open>string option\<close>.
\<close>

subsection \<open>Errors and diagnostics\<close>

datatype sqlstate =
    ERRCODE_FDW_INVALID_OPTION_NAME
  | ERRCODE_SYNTAX_ERROR
  | ERRCODE_FDW_OUT_OF_MEMORY
  | ERRCODE_FDW_UNABLE_TO_ESTABLISH_CONNECTION
  | ERRCODE_FDW_UNABLE_TO_CREATE_EXECUTION
  | ERRCODE_CHARACTER_NOT_IN_REPERTOIRE

text \<open>The accesses that are undefined behaviour in C.\<close>

datatype fault =
    NullDereference        \<comment> \<open>a \<^verbatim>\<open>NULL\<close> pointer is read\<close>
  | ReadPastRow            \<comment> \<open>\<^verbatim>\<open>row[i]\<close> beyond the fields of the row\<close>
  | ReadPastDescriptor     \<comment> \<open>\<^verbatim>\<open>attrs[y]\<close> beyond the attributes of the descriptor\<close>
  | WritePastArray         \<comment> \<open>\<^verbatim>\<open>nulls[y]\<close>, \<^verbatim>\<open>dvalues[y]\<close> beyond the allocation\<close>

datatype error =
    Ereport sqlstate string "string option"   \<comment> \<open>errcode, errmsg, errhint\<close>
  | Fault fault

text \<open>\<^verbatim>\<open>elog(NOTICE, ...)\<close> and \<^verbatim>\<open>ereport(WARNING, ...)\<close> return to the caller.\<close>

datatype diagnostic =
    NOTICE string
  | WARNING sqlstate string

subsection \<open>The environment: libc and host functions\<close>

type_synonym Oid = nat

text \<open>
  The type \<open>'d\<close> stands for C's \<^verbatim>\<open>double\<close> and \<open>'v\<close> for the host's typed
  values (the contents of a \<^verbatim>\<open>Datum\<close>). \<^verbatim>\<open>pg_verifymbstr\<close> is the call with
  \<^verbatim>\<open>noError = true\<close>. \<^verbatim>\<open>InputFunctionCall\<close> gets the input function, the text,
  the I/O parameter and the type modifier, and may itself raise an error.
\<close>

record ('d, 'v) env =
  atoi :: "string \<Rightarrow> int"
  atof :: "string \<Rightarrow> 'd"
  double_add :: "'d \<Rightarrow> 'd \<Rightarrow> 'd"
  double_of_int :: "int \<Rightarrow> 'd"
  GetDatabaseEncodingName :: string
  pg_verifymbstr :: "string \<Rightarrow> nat \<Rightarrow> bool"
  pg_encoding_mblen :: "string \<Rightarrow> int"
  TypeCategory :: "Oid \<Rightarrow> char"
  InputFunctionCall :: "Oid \<Rightarrow> string \<Rightarrow> Oid \<Rightarrow> int \<Rightarrow> error + 'v"

text \<open>The catalog identifiers, with the values of the host's catalog headers.\<close>

definition ForeignServerRelationId :: Oid where
  "ForeignServerRelationId = 1417"

definition UserMappingRelationId :: Oid where
  "UserMappingRelationId = 1418"

definition ForeignTableRelationId :: Oid where
  "ForeignTableRelationId = 3118"

definition TYPCATEGORY_STRING :: char where
  "TYPCATEGORY_STRING = CHR ''S''"

subsection \<open>Options\<close>

text \<open>A \<^verbatim>\<open>DefElem\<close>: the option's name and what \<^verbatim>\<open>defGetString\<close> returns for it.\<close>

type_synonym DefElem = "string \<times> string"

definition defname :: "DefElem \<Rightarrow> string" where
  "defname def = fst def"

definition defGetString :: "DefElem \<Rightarrow> string" where
  "defGetString def = snd def"

text \<open>The table \<^verbatim>\<open>valid_options\<close>, without its sentinel.\<close>

definition valid_options :: "(string \<times> Oid) list" where
  "valid_options =
    [(''address'', ForeignServerRelationId),
     (''port'', ForeignServerRelationId),
     (''username'', UserMappingRelationId),
     (''password'', UserMappingRelationId),
     (''database'', ForeignTableRelationId),
     (''query'', ForeignTableRelationId),
     (''table'', ForeignTableRelationId)]"

fun is_valid_in :: "(string \<times> Oid) list \<Rightarrow> string \<Rightarrow> Oid \<Rightarrow> bool" where
  "is_valid_in [] option context = False"
| "is_valid_in (opt # opts) option context =
     (if context = snd opt \<and> fst opt = option then True
      else is_valid_in opts option context)"

definition mysqlIsValidOption :: "string \<Rightarrow> Oid \<Rightarrow> bool" where
  "mysqlIsValidOption option context = is_valid_in valid_options option context"

text \<open>
  The hint of the unknown-option error: the names valid for the catalog, separated by
  a comma and a space, as the loop over \<^verbatim>\<open>valid_options\<close> appends them to \<^verbatim>\<open>buf\<close>.
\<close>

fun hint_buf :: "(string \<times> Oid) list \<Rightarrow> Oid \<Rightarrow> string \<Rightarrow> string" where
  "hint_buf [] catalog buf = buf"
| "hint_buf (opt # opts) catalog buf =
     (if catalog = snd opt
      then hint_buf opts catalog (buf @ (if length buf > 0 then '', '' else '''') @ fst opt)
      else hint_buf opts catalog buf)"

definition invalid_option_error :: "DefElem \<Rightarrow> Oid \<Rightarrow> error" where
  "invalid_option_error def catalog =
    (let buf = hint_buf valid_options catalog ''''
     in Ereport ERRCODE_FDW_INVALID_OPTION_NAME
          (''invalid option '' @ [CHR 0x22] @ defname def @ [CHR 0x22])
          (Some (''Valid options in this context are: '' @
                 (if length buf \<noteq> 0 then buf else ''<none>''))))"

text \<open>
  The variables of the validator and of the callers of \<^verbatim>\<open>mysqlGetOptions\<close>: six
  pointers that start as \<^verbatim>\<open>NULL\<close> and an \<^verbatim>\<open>int\<close> that starts as 0.
\<close>

record svr_options =
  svr_address :: "string option"
  svr_port :: int
  svr_username :: "string option"
  svr_password :: "string option"
  svr_database :: "string option"
  svr_query :: "string option"
  svr_table :: "string option"

definition svr_unset :: svr_options where
  "svr_unset = \<lparr>svr_address = None, svr_port = 0, svr_username = None,
     svr_password = None, svr_database = None, svr_query = None, svr_table = None\<rparr>"

definition redundant :: "string \<Rightarrow> DefElem \<Rightarrow> error" where
  "redundant name def =
    Ereport ERRCODE_SYNTAX_ERROR
      (''conflicting or redundant options: '' @ name @ '' ('' @ defGetString def @ '')'')
      None"

text \<open>
  The body of the validator's loop is three statements: the chain
  \<^verbatim>\<open>if (address) ... else if (port) ...\<close>, the single \<^verbatim>\<open>if (username) ...\<close>, and the
  chain \<^verbatim>\<open>if (password) ... else if (database) ... else if (query) ... else if (table) ...\<close>.
  The port is tested as an integer: \<^verbatim>\<open>if (svr_port)\<close>.
\<close>

definition check_address_port ::
  "('d, 'v) env \<Rightarrow> svr_options \<Rightarrow> DefElem \<Rightarrow> error + svr_options" where
  "check_address_port e s def =
    (if defname def = ''address'' then
       (if svr_address s \<noteq> None then Inl (redundant ''address'' def)
        else Inr (s\<lparr>svr_address := Some (defGetString def)\<rparr>))
     else if defname def = ''port'' then
       (if svr_port s \<noteq> 0 then Inl (redundant ''port'' def)
        else Inr (s\<lparr>svr_port := atoi e (defGetString def)\<rparr>))
     else Inr s)"

definition check_username :: "svr_options \<Rightarrow> DefElem \<Rightarrow> error + svr_options" where
  "check_username s def =
    (if defname def = ''username'' then
       (if svr_username s \<noteq> None then Inl (redundant ''username'' def)
        else Inr (s\<lparr>svr_username := Some (defGetString def)\<rparr>))
     else Inr s)"

definition check_rest :: "svr_options \<Rightarrow> DefElem \<Rightarrow> error + svr_options" where
  "check_rest s def =
    (if defname def = ''password'' then
       (if svr_password s \<noteq> None
        then Inl (Ereport ERRCODE_SYNTAX_ERROR
                    ''conflicting or redundant options: password'' None)
        else Inr (s\<lparr>svr_password := Some (defGetString def)\<rparr>))
     else if defname def = ''database'' then
       (if svr_database s \<noteq> None then Inl (redundant ''database'' def)
        else Inr (s\<lparr>svr_database := Some (defGetString def)\<rparr>))
     else if defname def = ''query'' then
       (if svr_table s \<noteq> None
        then Inl (Ereport ERRCODE_SYNTAX_ERROR
                    ''conflicting options: query cannot be used with table'' None)
        else if svr_query s \<noteq> None then Inl (redundant ''query'' def)
        else Inr (s\<lparr>svr_query := Some (defGetString def)\<rparr>))
     else if defname def = ''table'' then
       (if svr_query s \<noteq> None
        then Inl (Ereport ERRCODE_SYNTAX_ERROR
                    ''conflicting options: table cannot be used with query'' None)
        else if svr_table s \<noteq> None then Inl (redundant ''table'' def)
        else Inr (s\<lparr>svr_table := Some (defGetString def)\<rparr>))
     else Inr s)"

definition validate_option ::
  "('d, 'v) env \<Rightarrow> Oid \<Rightarrow> svr_options \<Rightarrow> DefElem \<Rightarrow> error + svr_options" where
  "validate_option e catalog s def =
    (if \<not> mysqlIsValidOption (defname def) catalog
     then Inl (invalid_option_error def catalog)
     else case check_address_port e s def of
            Inl err \<Rightarrow> Inl err
          | Inr s1 \<Rightarrow>
              (case check_username s1 def of
                 Inl err \<Rightarrow> Inl err
               | Inr s2 \<Rightarrow> check_rest s2 def))"

fun validate_options ::
  "('d, 'v) env \<Rightarrow> Oid \<Rightarrow> svr_options \<Rightarrow> DefElem list \<Rightarrow> error + svr_options" where
  "validate_options e catalog s [] = Inr s"
| "validate_options e catalog s (def # defs) =
     (case validate_option e catalog s def of
        Inl err \<Rightarrow> Inl err
      | Inr s' \<Rightarrow> validate_options e catalog s' defs)"

definition mysql_fdw_validator ::
  "('d, 'v) env \<Rightarrow> DefElem list \<Rightarrow> Oid \<Rightarrow> error + unit" where
  "mysql_fdw_validator e options_list catalog =
    (case validate_options e catalog svr_unset options_list of
       Inl err \<Rightarrow> Inl err
     | Inr s \<Rightarrow> Inr ())"

text \<open>
  What the catalog holds for a foreign table: the options of the table, of its server
  and of the user mapping, as \<^verbatim>\<open>GetForeignTable\<close>, \<^verbatim>\<open>GetForeignServer\<close> and
  \<^verbatim>\<open>GetUserMapping\<close> return them.
\<close>

record catalog =
  table_options :: "DefElem list"
  server_options :: "DefElem list"
  mapping_options :: "DefElem list"

text \<open>The body of the loop of \<^verbatim>\<open>mysqlGetOptions\<close>: seven independent tests.\<close>

definition get_option :: "('d, 'v) env \<Rightarrow> svr_options \<Rightarrow> DefElem \<Rightarrow> svr_options" where
  "get_option e s def =
    (let s1 = (if defname def = ''address''
               then s\<lparr>svr_address := Some (defGetString def)\<rparr> else s);
         s2 = (if defname def = ''port''
               then s1\<lparr>svr_port := atoi e (defGetString def)\<rparr> else s1);
         s3 = (if defname def = ''username''
               then s2\<lparr>svr_username := Some (defGetString def)\<rparr> else s2);
         s4 = (if defname def = ''password''
               then s3\<lparr>svr_password := Some (defGetString def)\<rparr> else s3);
         s5 = (if defname def = ''database''
               then s4\<lparr>svr_database := Some (defGetString def)\<rparr> else s4);
         s6 = (if defname def = ''query''
               then s5\<lparr>svr_query := Some (defGetString def)\<rparr> else s5)
     in (if defname def = ''table''
         then s6\<lparr>svr_table := Some (defGetString def)\<rparr> else s6))"

fun get_options_loop ::
  "('d, 'v) env \<Rightarrow> svr_options \<Rightarrow> DefElem list \<Rightarrow> svr_options" where
  "get_options_loop e s [] = s"
| "get_options_loop e s (def # defs) = get_options_loop e (get_option e s def) defs"

definition mysqlGetOptions ::
  "('d, 'v) env \<Rightarrow> catalog \<Rightarrow> svr_options \<Rightarrow> error + svr_options" where
  "mysqlGetOptions e cat s0 =
    (let options = [] @ table_options cat @ server_options cat @ mapping_options cat;
         s1 = get_options_loop e s0 options;
         s2 = (if svr_address s1 = None then s1\<lparr>svr_address := Some ''127.0.0.1''\<rparr> else s1);
         s3 = (if svr_port s2 = 0 then s2\<lparr>svr_port := 3306\<rparr> else s2)
     in if svr_table s3 = None \<and> svr_query s3 = None
        then Inl (Ereport ERRCODE_SYNTAX_ERROR
                    ''either a table or a query must be specified'' None)
        else Inr s3)"

subsection \<open>The MySQL client library\<close>

text \<open>
  A \<^verbatim>\<open>MYSQL_ROW\<close> is an array of field pointers, \<^verbatim>\<open>NULL\<close> for an SQL null. A field is
  the list of its bytes, whose length is what \<^verbatim>\<open>mysql_fetch_lengths\<close> reports. A
  \<^verbatim>\<open>MYSQL_RES\<close> is a stored result: its field count, its rows and the position of the
  next row to fetch.
\<close>

type_synonym MYSQL_ROW = "string option list"

record MYSQL_RES =
  res_fields :: nat
  res_rows :: "MYSQL_ROW list"
  res_cursor :: nat

text \<open>
  The server as the client library shows it: whether \<^verbatim>\<open>mysql_init\<close> gets its memory,
  whether \<^verbatim>\<open>mysql_real_connect\<close> succeeds for an address, user, password, database and
  port, whether \<^verbatim>\<open>mysql_query\<close> succeeds for a query text, what \<^verbatim>\<open>mysql_store_result\<close>
  then returns, and the text of \<^verbatim>\<open>mysql_error\<close>.
\<close>

record server =
  init_ok :: bool
  connect_ok :: "string \<Rightarrow> string option \<Rightarrow> string option \<Rightarrow> string option \<Rightarrow> int \<Rightarrow> bool"
  query_ok :: "string \<Rightarrow> bool"
  stored :: "string \<Rightarrow> MYSQL_RES option"
  mysql_error :: string

text \<open>
  The state around the wrapper: the connection handles that \<^verbatim>\<open>mysql_init\<close> has
  returned and \<^verbatim>\<open>mysql_close\<close> has not yet released, the queries passed to
  \<^verbatim>\<open>mysql_query\<close> (oldest first) and the diagnostics emitted (oldest first).
\<close>

record backend =
  next_handle :: nat
  open_handles :: "nat set"
  sent :: "string list"
  emitted :: "diagnostic list"

definition mysql_init :: "server \<Rightarrow> backend \<Rightarrow> nat option \<times> backend" where
  "mysql_init srv b =
    (if init_ok srv
     then (Some (next_handle b),
           b\<lparr>next_handle := Suc (next_handle b),
             open_handles := insert (next_handle b) (open_handles b)\<rparr>)
     else (None, b))"

definition mysql_close :: "nat \<Rightarrow> backend \<Rightarrow> backend" where
  "mysql_close conn b = b\<lparr>open_handles := open_handles b - {conn}\<rparr>"

text \<open>\<^verbatim>\<open>mysql_query\<close> returns 0 on success: here \<open>True\<close>.\<close>

definition mysql_query :: "server \<Rightarrow> string \<Rightarrow> backend \<Rightarrow> bool \<times> backend" where
  "mysql_query srv q b = (query_ok srv q, b\<lparr>sent := sent b @ [q]\<rparr>)"

definition mysql_store_result :: "server \<Rightarrow> string \<Rightarrow> MYSQL_RES option" where
  "mysql_store_result srv q = stored srv q"

definition mysql_num_fields :: "MYSQL_RES \<Rightarrow> nat" where
  "mysql_num_fields res = res_fields res"

definition mysql_fetch_row :: "MYSQL_RES \<Rightarrow> MYSQL_ROW option \<times> MYSQL_RES" where
  "mysql_fetch_row res =
    (if res_cursor res < length (res_rows res)
     then (Some (res_rows res ! res_cursor res), res\<lparr>res_cursor := Suc (res_cursor res)\<rparr>)
     else (None, res))"

definition mysql_fetch_lengths :: "MYSQL_ROW \<Rightarrow> nat list" where
  "mysql_fetch_lengths row = map (\<lambda>f. case f of None \<Rightarrow> 0 | Some bytes \<Rightarrow> length bytes) row"

definition mysql_data_seek :: "MYSQL_RES \<Rightarrow> nat \<Rightarrow> MYSQL_RES" where
  "mysql_data_seek res n = res\<lparr>res_cursor := n\<rparr>"

text \<open>\<^verbatim>\<open>snprintf(buf, len, ...)\<close> keeps at most \<open>len - 1\<close> bytes of the formatted text.\<close>

definition snprintf :: "nat \<Rightarrow> string \<Rightarrow> string" where
  "snprintf len s = take (len - 1) s"

subsection \<open>Planning: the cost probe\<close>

record 'd plan =
  startup_cost :: 'd
  total_cost :: 'd
  baserel_rows :: 'd
  baserel_tuples :: 'd

definition startup_cost_of :: "('d, 'v) env \<Rightarrow> string \<Rightarrow> 'd" where
  "startup_cost_of e address =
    (if address = ''127.0.0.1'' \<or> address = ''localhost''
     then double_of_int e 10 else double_of_int e 25)"

text \<open>
  The query of the probe. When \<^verbatim>\<open>svr_query\<close> is \<^verbatim>\<open>NULL\<close> the code reads \<^verbatim>\<open>svr_table\<close>
  without a test.
\<close>

definition plan_query :: "svr_options \<Rightarrow> error + string" where
  "plan_query s =
    (case svr_query s of
       Some q \<Rightarrow> Inr (snprintf (length q + 9) (''EXPLAIN '' @ q))
     | None \<Rightarrow>
        (case svr_table s of
           None \<Rightarrow> Inl (Fault NullDereference)
         | Some t \<Rightarrow> Inr (snprintf (length t + 23) (''EXPLAIN SELECT * FROM '' @ t))))"

text \<open>
  The loop \<^verbatim>\<open>while ((row = mysql_fetch_row(result))) rows += atof(row[8]);\<close>. The row
  is read at index 8 whatever its length, and the field is passed to \<^verbatim>\<open>atof\<close> whether
  or not it is \<^verbatim>\<open>NULL\<close>.
\<close>

function sum_rows :: "('d, 'v) env \<Rightarrow> MYSQL_RES \<Rightarrow> 'd \<Rightarrow> error + 'd" where
  "sum_rows e res rows =
    (case mysql_fetch_row res of
       (None, res') \<Rightarrow> Inr rows
     | (Some row, res') \<Rightarrow>
        (if 8 < length row
         then (case row ! 8 of
                 None \<Rightarrow> Inl (Fault NullDereference)
               | Some field \<Rightarrow> sum_rows e res' (double_add e rows (atof e field)))
         else Inl (Fault ReadPastRow)))"
  by pat_completeness auto
termination
  by (relation "measure (\<lambda>(e, res, rows). length (res_rows res) - res_cursor res)")
     (auto simp: mysql_fetch_row_def split: if_splits)

declare sum_rows.simps [simp del]

definition query_failed :: "server \<Rightarrow> error" where
  "query_failed srv =
    Ereport ERRCODE_FDW_UNABLE_TO_CREATE_EXECUTION
      (''failed to execute the MySQL query: '' @ mysql_error srv) None"

definition init_failed :: error where
  "init_failed =
    Ereport ERRCODE_FDW_OUT_OF_MEMORY
      ''failed to initialise the MySQL connection object'' None"

definition connect_failed :: "server \<Rightarrow> error" where
  "connect_failed srv =
    Ereport ERRCODE_FDW_UNABLE_TO_ESTABLISH_CONNECTION
      (''failed to connect to MySQL: '' @ mysql_error srv) None"

text \<open>The probe on an open connection: from \<^verbatim>\<open>mysql_query\<close> to the return.\<close>

definition plan_probe ::
  "('d, 'v) env \<Rightarrow> server \<Rightarrow> 'd \<Rightarrow> nat \<Rightarrow> string \<Rightarrow> backend
     \<Rightarrow> (error + 'd plan) \<times> backend" where
  "plan_probe e srv startup conn q b =
    (case mysql_query srv q b of
       (False, b1) \<Rightarrow> (Inl (query_failed srv), mysql_close conn b1)
     | (True, b1) \<Rightarrow>
        (case mysql_store_result srv q of
           None \<Rightarrow> (Inl (query_failed srv), mysql_close conn b1)
         | Some result \<Rightarrow>
            (case sum_rows e result (double_of_int e 0) of
               Inl err \<Rightarrow> (Inl err, b1)
             | Inr rows \<Rightarrow>
                (Inr \<lparr>startup_cost = startup,
                      total_cost = double_add e rows startup,
                      baserel_rows = rows,
                      baserel_tuples = rows\<rparr>,
                 mysql_close conn b1))))"

text \<open>
  \<^verbatim>\<open>mysqlPlanForeignScan\<close>. The calls of \<^verbatim>\<open>mysql_options\<close> (the character set) and of
  \<^verbatim>\<open>mysql_free_result\<close> change nothing that the model tracks and are left out, here and
  in the scan. The exit on a failed \<^verbatim>\<open>mysql_real_connect\<close> is an \<^verbatim>\<open>ereport\<close> with no
  \<^verbatim>\<open>mysql_close\<close> before it, in this function and in \<^verbatim>\<open>mysqlBeginForeignScan\<close>.
\<close>

definition mysqlPlanForeignScan ::
  "('d, 'v) env \<Rightarrow> server \<Rightarrow> catalog \<Rightarrow> backend \<Rightarrow> (error + 'd plan) \<times> backend" where
  "mysqlPlanForeignScan e srv cat b =
    (case mysqlGetOptions e cat svr_unset of
       Inl err \<Rightarrow> (Inl err, b)
     | Inr s \<Rightarrow>
        (case svr_address s of
           None \<Rightarrow> (Inl (Fault NullDereference), b)
         | Some address \<Rightarrow>
            (case mysql_init srv b of
               (None, b1) \<Rightarrow> (Inl init_failed, b1)
             | (Some conn, b1) \<Rightarrow>
                (if \<not> connect_ok srv address (svr_username s) (svr_password s)
                        (svr_database s) (svr_port s)
                 then (Inl (connect_failed srv), b1)
                 else (case plan_query s of
                         Inl err \<Rightarrow> (Inl err, b1)
                       | Inr q \<Rightarrow> plan_probe e srv (startup_cost_of e address) conn q b1)))))"

subsection \<open>The scan state and its lifecycle\<close>

record MySQLFdwExecutionState =
  conn :: "nat option"
  result :: "MYSQL_RES option"
  query :: "string option"
  num_fields :: nat

definition begin_query :: "svr_options \<Rightarrow> error + string" where
  "begin_query s =
    (case svr_query s of
       Some q \<Rightarrow> Inr q
     | None \<Rightarrow>
        (case svr_table s of
           None \<Rightarrow> Inl (Fault NullDereference)
         | Some t \<Rightarrow> Inr (snprintf (length t + 15) (''SELECT * FROM '' @ t))))"

definition mysqlBeginForeignScan ::
  "('d, 'v) env \<Rightarrow> server \<Rightarrow> catalog \<Rightarrow> backend
     \<Rightarrow> (error + MySQLFdwExecutionState) \<times> backend" where
  "mysqlBeginForeignScan e srv cat b =
    (case mysqlGetOptions e cat svr_unset of
       Inl err \<Rightarrow> (Inl err, b)
     | Inr s \<Rightarrow>
        (case mysql_init srv b of
           (None, b1) \<Rightarrow> (Inl init_failed, b1)
         | (Some c, b1) \<Rightarrow>
            (case svr_address s of
               None \<Rightarrow> (Inl (Fault NullDereference), b1)
             | Some address \<Rightarrow>
                (if \<not> connect_ok srv address (svr_username s) (svr_password s)
                        (svr_database s) (svr_port s)
                 then (Inl (connect_failed srv), b1)
                 else (case begin_query s of
                         Inl err \<Rightarrow> (Inl err, b1)
                       | Inr q \<Rightarrow>
                          (Inr \<lparr>conn = Some c, result = None, query = Some q,
                                num_fields = 0\<rparr>, b1))))))"

text \<open>
  \<^verbatim>\<open>mysqlEndForeignScan\<close>: three tests, each on its own field; every field released
  is set to \<^verbatim>\<open>NULL\<close>.
\<close>

definition mysqlEndForeignScan ::
  "MySQLFdwExecutionState \<Rightarrow> backend \<Rightarrow> MySQLFdwExecutionState \<times> backend" where
  "mysqlEndForeignScan festate b =
    (let f1 = (if result festate \<noteq> None then festate\<lparr>result := None\<rparr> else festate);
         (f2, b2) = (case conn f1 of
                       Some c \<Rightarrow> (f1\<lparr>conn := None\<rparr>, mysql_close c b)
                     | None \<Rightarrow> (f1, b));
         f3 = (if query f2 \<noteq> None then f2\<lparr>query := None\<rparr> else f2)
     in (f3, b2))"

definition mysqlReScanForeignScan :: "MySQLFdwExecutionState \<Rightarrow> MySQLFdwExecutionState" where
  "mysqlReScanForeignScan festate =
    (case result festate of
       Some res \<Rightarrow> festate\<lparr>result := Some (mysql_data_seek res 0)\<rparr>
     | None \<Rightarrow> festate)"

subsection \<open>Encoding check\<close>

text \<open>What \<^verbatim>\<open>%s\<close> prints and what a callee reads from a \<^verbatim>\<open>char *\<close>: the bytes up to the first zero.\<close>

definition c_str :: "string \<Rightarrow> string" where
  "c_str bytes = takeWhile (\<lambda>c. c \<noteq> CHR 0x00) bytes"

definition hex_digit :: "nat \<Rightarrow> char" where
  "hex_digit n = ''0123456789abcdef'' ! n"

text \<open>\<^verbatim>\<open>sprintf(p, "0x%02x", (unsigned char) c)\<close>.\<close>

definition hex_byte :: "char \<Rightarrow> string" where
  "hex_byte c = ''0x'' @ [hex_digit ((of_char c :: nat) div 16), hex_digit ((of_char c :: nat) mod 16)]"

text \<open>The loop that fills \<^verbatim>\<open>buf\<close>, over the first \<^verbatim>\<open>jlimit\<close> bytes: a space between two bytes, none after the last.\<close>

fun hex_dump :: "string \<Rightarrow> string" where
  "hex_dump [] = []"
| "hex_dump [c] = hex_byte c"
| "hex_dump (c # cs) = hex_byte c @ '' '' @ hex_dump cs"

definition verify_buf :: "('d, 'v) env \<Rightarrow> string \<Rightarrow> nat \<Rightarrow> string" where
  "verify_buf e mbstr len =
    (let l = pg_encoding_mblen e mbstr;
         jlimit = min (min l (int len)) 8
     in hex_dump (take (nat jlimit) mbstr))"

text \<open>
  \<^verbatim>\<open>mysqlVerifymbstr\<close> returns whether the bytes are valid, and the diagnostics it
  emitted. The local \<^verbatim>\<open>buf\<close> is filled and never read: the last argument of
  \<^verbatim>\<open>errmsg\<close> is \<^verbatim>\<open>mbstr\<close>.
\<close>

definition mysqlVerifymbstr ::
  "('d, 'v) env \<Rightarrow> string \<Rightarrow> nat \<Rightarrow> bool \<times> diagnostic list" where
  "mysqlVerifymbstr e mbstr len =
    (if \<not> pg_verifymbstr e mbstr len
     then (let buf = verify_buf e mbstr len
           in (False,
               [WARNING ERRCODE_CHARACTER_NOT_IN_REPERTOIRE
                  (''invalid byte sequence for encoding '' @ [CHR 0x22] @
                   GetDatabaseEncodingName e @ [CHR 0x22] @ '': '' @ c_str mbstr)]))
     else (True, []))"

subsection \<open>Row materialisation\<close>

text \<open>
  One attribute of the host's descriptor, with the entries of \<^verbatim>\<open>AttInMetadata\<close> for
  it: the dropped flag, the input function, the I/O parameter and the type modifier.
\<close>

record attribute =
  attisdropped :: bool
  attinfunc :: Oid
  attioparam :: Oid
  atttypmod :: int

text \<open>
  One position of the arrays \<^verbatim>\<open>nulls\<close> and \<^verbatim>\<open>dvalues\<close>, which are written together:
  as \<^verbatim>\<open>palloc\<close> returned it, null, or a value.
\<close>

datatype 'v entry = Unwritten | IsNull | Value 'v

text \<open>\<^verbatim>\<open>%d\<close> of a number that is not negative.\<close>

function format_d :: "nat \<Rightarrow> string" where
  "format_d n =
    (if n < 10 then [char_of (48 + n)]
     else format_d (n div 10) @ [char_of (48 + n mod 10)])"
  by pat_completeness auto
termination
  by (relation "measure id") auto

declare format_d.simps [simp del]

text \<open>
  The inner loop \<^verbatim>\<open>while (meta->tupdesc->attrs[y]->attisdropped)\<close>: no test of \<open>y\<close>
  against the number of attributes, nor against the size of the arrays.
\<close>

function skip_dropped ::
  "attribute list \<Rightarrow> nat \<Rightarrow> 'v entry list \<Rightarrow> diagnostic list
     \<Rightarrow> error + (nat \<times> 'v entry list \<times> diagnostic list)" where
  "skip_dropped attrs y cells ds =
    (if y < length attrs then
       (if attisdropped (attrs ! y) then
          (if y < length cells
           then skip_dropped attrs (Suc y) (cells[y := IsNull])
                  (ds @ [NOTICE (''attisdropped['' @ format_d y @ '']'')])
           else Inl (Fault WritePastArray))
        else Inr (y, cells, ds))
     else Inl (Fault ReadPastDescriptor))"
  by pat_completeness auto
termination
  by (relation "measure (\<lambda>(attrs, y, cells, ds). length attrs - y)") auto

declare skip_dropped.simps [simp del]

text \<open>The three branches on one remote field: \<^verbatim>\<open>NULL\<close>, length zero, and the rest.\<close>

definition convert_field ::
  "('d, 'v) env \<Rightarrow> attribute \<Rightarrow> string option \<Rightarrow> nat
     \<Rightarrow> (error + 'v entry) \<times> diagnostic list" where
  "convert_field e att field len =
    (case field of
       None \<Rightarrow> (Inr IsNull, [])
     | Some bytes \<Rightarrow>
        (if len = 0 then
           (case InputFunctionCall e (attinfunc att) [] (attioparam att) (atttypmod att) of
              Inl err \<Rightarrow> (Inl err, [])
            | Inr v \<Rightarrow> (Inr (Value v), []))
         else
           (let (encoding_error, ds) =
                  (if TypeCategory e (attioparam att) = TYPCATEGORY_STRING
                   then (let (ok, ws) = mysqlVerifymbstr e bytes len in (\<not> ok, ws))
                   else (False, []))
            in if encoding_error then (Inr IsNull, ds)
               else (case InputFunctionCall e (attinfunc att) (c_str bytes)
                            (attioparam att) (atttypmod att) of
                       Inl err \<Rightarrow> (Inl err, ds)
                     | Inr v \<Rightarrow> (Inr (Value v), ds)))))"

text \<open>
  The loop \<^verbatim>\<open>for (x = y = 0; x < festate->num_fields; x++, y++)\<close>. The arrays have
  \<^verbatim>\<open>num_fields\<close> positions; a write at a position beyond them is a fault, which the
  model reports before it converts the field.
\<close>

function fill_row ::
  "('d, 'v) env \<Rightarrow> attribute list \<Rightarrow> MYSQL_ROW \<Rightarrow> nat list \<Rightarrow> nat \<Rightarrow> nat \<Rightarrow> nat
     \<Rightarrow> 'v entry list \<Rightarrow> diagnostic list \<Rightarrow> (error + 'v entry list) \<times> diagnostic list" where
  "fill_row e attrs row lengths n x y cells ds =
    (if x < n then
       (case skip_dropped attrs y cells ds of
          Inl err \<Rightarrow> (Inl err, ds)
        | Inr (y1, cells1, ds1) \<Rightarrow>
           (if \<not> x < length row then (Inl (Fault ReadPastRow), ds1)
            else if \<not> y1 < length cells1 then (Inl (Fault WritePastArray), ds1)
            else (case convert_field e (attrs ! y1) (row ! x) (lengths ! x) of
                    (Inl err, ds2) \<Rightarrow> (Inl err, ds1 @ ds2)
                  | (Inr v, ds2) \<Rightarrow>
                      fill_row e attrs row lengths n (Suc x) (Suc y1)
                        (cells1[y1 := v]) (ds1 @ ds2))))
     else (Inr cells, ds))"
  by pat_completeness auto
termination
  by (relation "measure (\<lambda>(e, attrs, row, lengths, n, x, y, cells, ds). n - x)") auto

declare fill_row.simps [simp del]

text \<open>
  The first part of \<^verbatim>\<open>mysqlIterateForeignScan\<close>: execute the query when there is no
  result yet. It returns the error raised, if any, with the state as the exit leaves
  it: both error exits call \<^verbatim>\<open>mysql_close(festate->conn)\<close> and assign nothing to
  \<^verbatim>\<open>festate->conn\<close>.
\<close>

definition iterate_execute ::
  "server \<Rightarrow> MySQLFdwExecutionState \<Rightarrow> backend
     \<Rightarrow> error option \<times> MySQLFdwExecutionState \<times> backend" where
  "iterate_execute srv festate b =
    (case result festate of
       Some res \<Rightarrow> (None, festate, b)
     | None \<Rightarrow>
        (case (conn festate, query festate) of
           (Some c, Some q) \<Rightarrow>
             (case mysql_query srv q b of
                (False, b1) \<Rightarrow> (Some (query_failed srv), festate, mysql_close c b1)
              | (True, b1) \<Rightarrow>
                 (case mysql_store_result srv q of
                    None \<Rightarrow> (Some (query_failed srv), festate, mysql_close c b1)
                  | Some res \<Rightarrow>
                     (None,
                      festate\<lparr>result := Some res, num_fields := mysql_num_fields res\<rparr>,
                      b1)))
         | _ \<Rightarrow> (Some (Fault NullDereference), festate, b)))"

text \<open>
  The second part: clear the slot, fetch the next row and fill the slot from it. The
  slot is \<open>None\<close> when it is left empty, and else the arrays stored in it.
\<close>

definition iterate_fetch ::
  "('d, 'v) env \<Rightarrow> attribute list \<Rightarrow> MySQLFdwExecutionState \<Rightarrow> backend
     \<Rightarrow> (error + 'v entry list option) \<times> MySQLFdwExecutionState \<times> backend" where
  "iterate_fetch e attrs festate b =
    (case result festate of
       None \<Rightarrow> (Inl (Fault NullDereference), festate, b)
     | Some res \<Rightarrow>
        (case mysql_fetch_row res of
           (None, res1) \<Rightarrow> (Inr None, festate\<lparr>result := Some res1\<rparr>, b)
         | (Some row, res1) \<Rightarrow>
            (case fill_row e attrs row (mysql_fetch_lengths row) (num_fields festate) 0 0
                    (replicate (num_fields festate) Unwritten) [] of
               (Inl err, ds) \<Rightarrow>
                 (Inl err, festate\<lparr>result := Some res1\<rparr>, b\<lparr>emitted := emitted b @ ds\<rparr>)
             | (Inr cells, ds) \<Rightarrow>
                 (Inr (Some cells), festate\<lparr>result := Some res1\<rparr>,
                  b\<lparr>emitted := emitted b @ ds\<rparr>))))"

definition mysqlIterateForeignScan ::
  "('d, 'v) env \<Rightarrow> server \<Rightarrow> attribute list \<Rightarrow> MySQLFdwExecutionState \<Rightarrow> backend
     \<Rightarrow> (error + 'v entry list option) \<times> MySQLFdwExecutionState \<times> backend" where
  "mysqlIterateForeignScan e srv attrs festate b =
    (case iterate_execute srv festate b of
       (Some err, f1, b1) \<Rightarrow> (Inl err, f1, b1)
     | (None, f1, b1) \<Rightarrow> iterate_fetch e attrs f1 b1)"

subsection \<open>A sample environment and sample inputs\<close>

text \<open>
  The decimal reading of \<^verbatim>\<open>atoi\<close>: white space is skipped, a sign is read, then the
  digits up to the first byte that is not a digit; 0 when there is none.
\<close>

definition isspace :: "char \<Rightarrow> bool" where
  "isspace c = ((of_char c :: nat) = 32 \<or> (9 \<le> (of_char c :: nat) \<and> (of_char c :: nat) \<le> 13))"

definition isdigit :: "char \<Rightarrow> bool" where
  "isdigit c = (48 \<le> (of_char c :: nat) \<and> (of_char c :: nat) \<le> 57)"

fun read_digits :: "nat \<Rightarrow> string \<Rightarrow> nat" where
  "read_digits acc [] = acc"
| "read_digits acc (c # cs) =
     (if isdigit c then read_digits (acc * 10 + ((of_char c :: nat) - 48)) cs else acc)"

definition decimal_atoi :: "string \<Rightarrow> int" where
  "decimal_atoi s =
    (case dropWhile isspace s of
       [] \<Rightarrow> 0
     | c # cs \<Rightarrow>
        (if c = CHR ''-'' then - int (read_digits 0 cs)
         else if c = CHR ''+'' then int (read_digits 0 cs)
         else int (read_digits 0 (c # cs))))"

text \<open>
  In the sample environment the numbers are integers, the text of every field is its
  own value, the type with identifier 25 is the one string-like type, and the encoding
  has the seven-bit bytes as its characters, each of length 1.
\<close>

definition sample_env :: "(int, string) env" where
  "sample_env =
    \<lparr>atoi = decimal_atoi,
     atof = decimal_atoi,
     double_add = (\<lambda>a b. a + b),
     double_of_int = (\<lambda>i. i),
     GetDatabaseEncodingName = ''SEVENBIT'',
     pg_verifymbstr = (\<lambda>mbstr len. list_all (\<lambda>c. (of_char c :: nat) < 128) (take len mbstr)),
     pg_encoding_mblen = (\<lambda>mbstr. 1),
     TypeCategory = (\<lambda>typ. if typ = 25 then CHR ''S'' else CHR ''N''),
     InputFunctionCall = (\<lambda>fn str ioparam typmod. Inr str)\<rparr>"

definition text_column :: attribute where
  "text_column = \<lparr>attisdropped = False, attinfunc = 46, attioparam = 25, atttypmod = -1\<rparr>"

definition dropped_column :: attribute where
  "dropped_column = \<lparr>attisdropped = True, attinfunc = 0, attioparam = 0, atttypmod = -1\<rparr>"

definition orders_catalog :: catalog where
  "orders_catalog =
    \<lparr>table_options = [(''table'', ''orders'')], server_options = [], mapping_options = []\<rparr>"

text \<open>A table defined by a query, on a server and a user mapping with options of their own.\<close>

definition report_catalog :: catalog where
  "report_catalog =
    \<lparr>table_options = [(''database'', ''shop''), (''query'', ''SELECT id FROM t WHERE x>1'')],
     server_options = [(''address'', ''db.example.com''), (''port'', ''3307'')],
     mapping_options = [(''username'', ''app''), (''password'', ''secret'')]\<rparr>"

definition backend0 :: backend where
  "backend0 = \<lparr>next_handle = 0, open_handles = {}, sent = [], emitted = []\<rparr>"

text \<open>A server that answers every query with the given rows of the given field count.\<close>

definition serving :: "nat \<Rightarrow> MYSQL_ROW list \<Rightarrow> server" where
  "serving n rows =
    \<lparr>init_ok = True,
     connect_ok = (\<lambda>address username password database port. True),
     query_ok = (\<lambda>q. True),
     stored = (\<lambda>q. Some \<lparr>res_fields = n, res_rows = rows, res_cursor = 0\<rparr>),
     mysql_error = ''''\<rparr>"

text \<open>A server that refuses every connection, and one that fails every query.\<close>

definition refusing :: server where
  "refusing = (serving 0 [])\<lparr>connect_ok := (\<lambda>address username password database port. False),
     mysql_error := ''Connection refused''\<rparr>"

definition failing :: server where
  "failing = (serving 0 [])\<lparr>query_ok := (\<lambda>q. False),
     mysql_error := ''Unknown table''\<rparr>"

text \<open>The state of a scan of the sample table right after a successful begin.\<close>

definition orders_festate :: MySQLFdwExecutionState where
  "orders_festate =
    \<lparr>conn = Some 0, result = None, query = Some ''SELECT * FROM orders'', num_fields = 0\<rparr>"

definition backend1 :: backend where
  "backend1 = \<lparr>next_handle = 1, open_handles = {0}, sent = [], emitted = []\<rparr>"

text \<open>The options that resolution yields for the sample table.\<close>

definition orders_options :: svr_options where
  "orders_options =
    \<lparr>svr_address = Some ''127.0.0.1'', svr_port = 3306, svr_username = None,
     svr_password = None, svr_database = None, svr_query = None,
     svr_table = Some ''orders''\<rparr>"

text \<open>
  The answer of a server to the probe of a join: ten columns, the row estimate in
  the ninth.
\<close>

definition explain_output :: MYSQL_RES where
  "explain_output =
    \<lparr>res_fields = 10,
     res_rows =
       [[Some ''1'', Some ''SIMPLE'', Some ''o'', Some ''ALL'', None, None, None, None,
         Some ''120'', Some []],
        [Some ''1'', Some ''SIMPLE'', Some ''c'', Some ''eq_ref'', Some ''PRIMARY'',
         Some ''PRIMARY'', Some ''4'', Some ''shop.o.customer'', Some ''3'', Some []]],
     res_cursor = 0\<rparr>"

text \<open>A field that starts with the byte 0xff, which is no character of the sample encoding.\<close>

definition bad_text :: string where
  "bad_text = CHR 0xff # ''ABCDEFGHI''"

subsection \<open>Notions used to state the properties\<close>

text \<open>The rows that the fetch loop will still return: those from the cursor on.\<close>

definition remaining :: "MYSQL_RES \<Rightarrow> MYSQL_ROW list" where
  "remaining res = drop (res_cursor res) (res_rows res)"

text \<open>The loop of the cost probe, as a recursion over the rows it fetches.\<close>

fun sum_fields :: "('d, 'v) env \<Rightarrow> MYSQL_ROW list \<Rightarrow> 'd \<Rightarrow> error + 'd" where
  "sum_fields e [] rows = Inr rows"
| "sum_fields e (row # rest) rows =
     (if 8 < length row
      then (case row ! 8 of
              None \<Rightarrow> Inl (Fault NullDereference)
            | Some field \<Rightarrow> sum_fields e rest (double_add e rows (atof e field)))
      else Inl (Fault ReadPastRow))"

text \<open>A catalog with every port option removed, in each of its three layers.\<close>

definition without_port :: "catalog \<Rightarrow> catalog" where
  "without_port cat =
    \<lparr>table_options = filter (\<lambda>d. defname d \<noteq> ''port'') (table_options cat),
     server_options = filter (\<lambda>d. defname d \<noteq> ''port'') (server_options cat),
     mapping_options = filter (\<lambda>d. defname d \<noteq> ''port'') (mapping_options cat)\<rparr>"

text \<open>
  The value that the loop of \<^verbatim>\<open>mysqlGetOptions\<close> ends with for a name: that of the last
  entry of the merged list with this name, if there is one.
\<close>

fun last_value :: "string \<Rightarrow> DefElem list \<Rightarrow> string option" where
  "last_value name [] = None"
| "last_value name (d # ds) =
     (case last_value name ds of
        Some v \<Rightarrow> Some v
      | None \<Rightarrow> (if defname d = name then Some (defGetString d) else None))"

text \<open>
  The invariant that the specification gives for the session field of the scan state:
  it holds a handle only while that handle is open.
\<close>

definition conn_live :: "MySQLFdwExecutionState \<Rightarrow> backend \<Rightarrow> bool" where
  "conn_live festate b =
    (case conn festate of None \<Rightarrow> True | Some c \<Rightarrow> c \<in> open_handles b)"

section \<open>Properties\<close>

subsection \<open>Option validation and resolution\<close>

lemma valid_table_option:
  "mysqlIsValidOption name ForeignTableRelationId \<longleftrightarrow>
     name = ''database'' \<or> name = ''query'' \<or> name = ''table''"
  by (auto simp: mysqlIsValidOption_def valid_options_def ForeignTableRelationId_def
      ForeignServerRelationId_def UserMappingRelationId_def)

lemma validate_database:
  "defname d = ''database'' \<Longrightarrow>
     validate_option e ForeignTableRelationId s d =
       (if svr_database s \<noteq> None then Inl (redundant ''database'' d)
        else Inr (s\<lparr>svr_database := Some (defGetString d)\<rparr>))"
  by (simp add: validate_option_def valid_table_option check_address_port_def
      check_username_def check_rest_def)

lemma validate_invalid:
  "\<not> mysqlIsValidOption (defname d) catalog \<Longrightarrow>
     validate_option e catalog s d = Inl (invalid_option_error d catalog)"
  by (simp add: validate_option_def)

lemma only_database_left:
  assumes "\<forall>d \<in> set opts. defname d \<noteq> ''table'' \<and> defname d \<noteq> ''query''"
    and "d \<in> set opts"
  shows "mysqlIsValidOption (defname d) ForeignTableRelationId \<longleftrightarrow> defname d = ''database''"
  using assms by (auto simp: valid_table_option)

lemma validator_without_table_query:
  assumes neither: "\<forall>d \<in> set opts. defname d \<noteq> ''table'' \<and> defname d \<noteq> ''query''"
  shows "(mysql_fdw_validator e opts ForeignTableRelationId = Inr ()) \<longleftrightarrow>
           ((\<forall>d \<in> set opts. mysqlIsValidOption (defname d) ForeignTableRelationId) \<and>
            distinct (map defname opts))"
proof (cases opts)
  case Nil
  then show ?thesis by (simp add: mysql_fdw_validator_def)
next
  case (Cons d1 rest)
  note c1 = Cons
  have v1: "mysqlIsValidOption (defname d1) ForeignTableRelationId \<longleftrightarrow> defname d1 = ''database''"
    using only_database_left[OF neither] c1 by simp
  show ?thesis
  proof (cases rest)
    case Nil
    with c1 v1 show ?thesis
      by (cases "defname d1 = ''database''")
         (simp_all add: mysql_fdw_validator_def validate_database validate_invalid svr_unset_def)
  next
    case (Cons d2 rest2)
    have v2: "mysqlIsValidOption (defname d2) ForeignTableRelationId \<longleftrightarrow> defname d2 = ''database''"
      using only_database_left[OF neither] c1 Cons by simp
    show ?thesis
    proof (cases "defname d1 = ''database''")
      case True
      note t1 = True
      show ?thesis
      proof (cases "defname d2 = ''database''")
        case True
        with t1 c1 Cons show ?thesis
          by (simp add: mysql_fdw_validator_def validate_database svr_unset_def)
      next
        case False
        with t1 c1 Cons v2 show ?thesis
          by (simp add: mysql_fdw_validator_def validate_database validate_invalid svr_unset_def)
      qed
    next
      case False
      with c1 Cons v1 show ?thesis
        by (simp add: mysql_fdw_validator_def validate_invalid)
    qed
  qed
qed

lemma get_options_loop_snoc:
  "get_options_loop e s (xs @ [x]) = get_option e (get_options_loop e s xs) x"
  by (induction xs arbitrary: s) simp_all

lemma get_option_port:
  "defname d = ''port'' \<Longrightarrow> get_option e s d = s\<lparr>svr_port := atoi e (defGetString d)\<rparr>"
  by (simp add: get_option_def)

lemma get_option_not_port:
  "defname d \<noteq> ''port'' \<Longrightarrow>
     get_option e (s\<lparr>svr_port := p\<rparr>) d = (get_option e s d)\<lparr>svr_port := p\<rparr>"
  by (simp add: get_option_def Let_def)

text \<open>The port after the loop comes from the last port option of the merged list.\<close>

lemma get_options_loop_port:
  "svr_port (get_options_loop e s opts) =
     (if filter (\<lambda>d. defname d = ''port'') opts = [] then svr_port s
      else atoi e (defGetString (last (filter (\<lambda>d. defname d = ''port'') opts))))"
proof (induction opts rule: rev_induct)
  case Nil
  show ?case by simp
next
  case (snoc x xs)
  show ?case
  proof (cases "defname x = ''port''")
    case True
    then show ?thesis by (simp add: get_options_loop_snoc get_option_port)
  next
    case False
    then have "svr_port (get_option e (get_options_loop e s xs) x) =
               svr_port (get_options_loop e s xs)"
      by (simp add: get_option_def Let_def)
    with False snoc show ?thesis by (simp add: get_options_loop_snoc)
  qed
qed

lemma get_options_loop_without_port:
  "get_options_loop e s (filter (\<lambda>d. defname d \<noteq> ''port'') opts) =
     (get_options_loop e s opts)\<lparr>svr_port := svr_port s\<rparr>"
proof (induction opts rule: rev_induct)
  case Nil
  show ?case by simp
next
  case (snoc x xs)
  show ?case
  proof (cases "defname x = ''port''")
    case True
    with snoc show ?thesis by (simp add: get_options_loop_snoc get_option_port)
  next
    case False
    with snoc show ?thesis by (simp add: get_options_loop_snoc get_option_not_port)
  qed
qed

lemma get_options_loop_table_query:
  "\<forall>d \<in> set opts. defname d \<noteq> ''table'' \<and> defname d \<noteq> ''query'' \<Longrightarrow>
     svr_table (get_options_loop e s opts) = svr_table s \<and>
     svr_query (get_options_loop e s opts) = svr_query s"
  by (induction opts arbitrary: s) (simp_all add: get_option_def Let_def)

lemma mysqlGetOptions_Inr:
  assumes "mysqlGetOptions e cat s0 = Inr s"
  shows "svr_address s \<noteq> None" and "svr_query s \<noteq> None \<or> svr_table s \<noteq> None"
  using assms by (auto simp: mysqlGetOptions_def Let_def split: if_splits)

text \<open>A list that the validator accepts never has both a query and a table.\<close>

lemma validate_option_exclusive:
  assumes "validate_option e cat s d = Inr s'"
    and "svr_query s = None \<or> svr_table s = None"
  shows "(svr_query s' = None \<or> svr_table s' = None) \<and>
         (defname d = ''query'' \<or> svr_query s \<noteq> None \<longrightarrow> svr_query s' \<noteq> None) \<and>
         (defname d = ''table'' \<or> svr_table s \<noteq> None \<longrightarrow> svr_table s' \<noteq> None)"
  using assms
  by (auto simp: validate_option_def check_address_port_def check_username_def check_rest_def
      split: if_splits sum.splits)

lemma validate_options_exclusive:
  assumes "validate_options e cat s opts = Inr s'"
    and "svr_query s = None \<or> svr_table s = None"
  shows "(svr_query s' = None \<or> svr_table s' = None) \<and>
         (''query'' \<in> defname ` set opts \<or> svr_query s \<noteq> None \<longrightarrow> svr_query s' \<noteq> None) \<and>
         (''table'' \<in> defname ` set opts \<or> svr_table s \<noteq> None \<longrightarrow> svr_table s' \<noteq> None)"
  using assms
proof (induction opts arbitrary: s)
  case Nil
  then show ?case by simp
next
  case (Cons d opts)
  from Cons.prems(1) obtain s1 where
    one: "validate_option e cat s d = Inr s1" and
    more: "validate_options e cat s1 opts = Inr s'"
    by (auto split: sum.splits)
  note first = validate_option_exclusive[OF one Cons.prems(2)]
  from first have "svr_query s1 = None \<or> svr_table s1 = None" by simp
  from Cons.IH[OF more this] first show ?case
    by auto
qed

lemma validator_excludes_query_with_table:
  assumes "mysql_fdw_validator e opts catalog = Inr ()"
  shows "\<not> (''query'' \<in> defname ` set opts \<and> ''table'' \<in> defname ` set opts)"
proof -
  from assms obtain s' where "validate_options e catalog svr_unset opts = Inr s'"
    by (auto simp: mysql_fdw_validator_def split: sum.splits)
  from validate_options_exclusive[OF this] show ?thesis
    by (auto simp: svr_unset_def)
qed

text \<open>The decimal reading gives 0 for a text that does not start as a number.\<close>

lemma decimal_atoi_not_a_number:
  "\<not> isspace c \<Longrightarrow> \<not> isdigit c \<Longrightarrow> c \<noteq> CHR ''-'' \<Longrightarrow> c \<noteq> CHR ''+'' \<Longrightarrow>
     decimal_atoi (c # cs) = 0"
  by (simp add: decimal_atoi_def)

lemma orders_resolved: "mysqlGetOptions sample_env orders_catalog svr_unset = Inr orders_options"
  by code_simp

text \<open>
  C7. As stated: an option list in which a single-valued option appears more than once
  fails validation. The validator remembers the port as an integer and takes 0 for
  "no port yet", so a port that reads as 0 is forgotten: the server-level list with
  the port \<open>0\<close> followed by the port \<open>3306\<close> is accepted.
\<close>

theorem validator_accepts_port_after_zero_port:
  "mysql_fdw_validator sample_env [(''port'', ''0''), (''port'', ''3306'')]
     ForeignServerRelationId = Inr ()"
  by code_simp

text \<open>
  C8. When the port option that resolution uses (the last one of the merged list) has
  a value that \<^verbatim>\<open>atoi\<close> reads as 0, resolution gives what it gives for the catalog with
  no port option at all, and the resolved port is 3306.
\<close>

theorem zero_port_is_default_port:
  assumes ports: "ports = filter (\<lambda>d. defname d = ''port'')
                    (table_options cat @ server_options cat @ mapping_options cat)"
    and supplied: "ports \<noteq> []"
    and zero: "atoi e (defGetString (last ports)) = 0"
  shows "mysqlGetOptions e cat svr_unset = mysqlGetOptions e (without_port cat) svr_unset \<and>
         (\<forall>s. mysqlGetOptions e cat svr_unset = Inr s \<longrightarrow> svr_port s = 3306)"
proof -
  let ?opts = "table_options cat @ server_options cat @ mapping_options cat"
  let ?s1 = "get_options_loop e svr_unset ?opts"
  have p: "svr_port ?s1 = 0"
    using ports supplied zero by (simp only: get_options_loop_port) simp
  have "get_options_loop e svr_unset (filter (\<lambda>d. defname d \<noteq> ''port'') ?opts) =
        ?s1\<lparr>svr_port := svr_port svr_unset\<rparr>"
    by (rule get_options_loop_without_port)
  also have "\<dots> = ?s1"
    using p by (simp add: svr_unset_def)
  finally have same:
    "get_options_loop e svr_unset (filter (\<lambda>d. defname d \<noteq> ''port'') ?opts) = ?s1" .
  have eq: "mysqlGetOptions e cat svr_unset = mysqlGetOptions e (without_port cat) svr_unset"
    using same by (simp add: mysqlGetOptions_def without_port_def)
  have "\<forall>s. mysqlGetOptions e cat svr_unset = Inr s \<longrightarrow> svr_port s = 3306"
    using p by (auto simp: mysqlGetOptions_def Let_def split: if_splits)
  with eq show ?thesis by simp
qed

theorem zero_port_is_default_port_witness:
  "atoi sample_env ''0'' = 0 \<and>
   mysqlGetOptions sample_env (orders_catalog\<lparr>server_options := [(''port'', ''0'')]\<rparr>) svr_unset
     = Inr orders_options \<and>
   svr_port orders_options = 3306"
proof -
  let ?cat = "orders_catalog\<lparr>server_options := [(''port'', ''0'')]\<rparr>"
  have ports: "[(''port'', ''0'')] = filter (\<lambda>d. defname d = ''port'')
                 (table_options ?cat @ server_options ?cat @ mapping_options ?cat)"
    by (simp add: orders_catalog_def defname_def)
  have supplied: "[(''port'', ''0'') :: DefElem] \<noteq> []"
    by simp
  have zero: "atoi sample_env (defGetString (last [(''port'', ''0'')])) = 0"
    by code_simp
  have bare: "without_port ?cat = orders_catalog"
    by (simp add: without_port_def orders_catalog_def defname_def)
  have "mysqlGetOptions sample_env ?cat svr_unset = Inr orders_options"
    using zero_port_is_default_port[OF ports supplied zero] bare orders_resolved by simp
  moreover have "atoi sample_env ''0'' = 0"
    by code_simp
  moreover have "svr_port orders_options = 3306"
    by (simp add: orders_options_def)
  ultimately show ?thesis by simp
qed

text \<open>
  C9, as stated: the validator accepts every table-level list that has neither
  \<open>table\<close> nor \<open>query\<close>. It does not: a list with the database given twice has
  neither, and is rejected as redundant.
\<close>

theorem validator_rejects_repeated_database:
  "defname (''database'', ''a'') \<noteq> ''table'' \<and> defname (''database'', ''a'') \<noteq> ''query'' \<and>
   defname (''database'', ''b'') \<noteq> ''table'' \<and> defname (''database'', ''b'') \<noteq> ''query'' \<and>
   mysql_fdw_validator sample_env [(''database'', ''a''), (''database'', ''b'')]
     ForeignTableRelationId \<noteq> Inr ()"
  by code_simp

text \<open>
  C9, amended. For a list with neither \<open>table\<close> nor \<open>query\<close>, submitted for a foreign
  table, the validator accepts exactly when every name is a valid table-level name and
  no name is repeated: the absence of both is never an error there. Resolution is where
  it is one: when no layer of the catalog has a \<open>table\<close> or a \<open>query\<close>,
  \<^verbatim>\<open>mysqlGetOptions\<close> raises its error.
\<close>

theorem table_or_query_required_only_at_resolution:
  assumes neither: "\<forall>d \<in> set opts. defname d \<noteq> ''table'' \<and> defname d \<noteq> ''query''"
    and layers: "table_options cat = opts"
    and others: "\<forall>d \<in> set (server_options cat @ mapping_options cat).
                   defname d \<noteq> ''table'' \<and> defname d \<noteq> ''query''"
  shows "((mysql_fdw_validator e opts ForeignTableRelationId = Inr ()) \<longleftrightarrow>
            ((\<forall>d \<in> set opts. mysqlIsValidOption (defname d) ForeignTableRelationId) \<and>
             distinct (map defname opts))) \<and>
         mysqlGetOptions e cat svr_unset =
           Inl (Ereport ERRCODE_SYNTAX_ERROR
                  ''either a table or a query must be specified'' None)"
proof -
  have "\<forall>d \<in> set (table_options cat @ server_options cat @ mapping_options cat).
          defname d \<noteq> ''table'' \<and> defname d \<noteq> ''query''"
    using neither layers others by auto
  from get_options_loop_table_query[OF this, of e svr_unset]
  have "mysqlGetOptions e cat svr_unset =
          Inl (Ereport ERRCODE_SYNTAX_ERROR
                 ''either a table or a query must be specified'' None)"
    by (simp add: mysqlGetOptions_def Let_def svr_unset_def)
  with validator_without_table_query[OF neither, of e] show ?thesis by simp
qed

theorem table_or_query_required_only_at_resolution_witness:
  "mysql_fdw_validator sample_env [(''database'', ''shop'')] ForeignTableRelationId = Inr () \<and>
   mysqlGetOptions sample_env
     \<lparr>table_options = [(''database'', ''shop'')], server_options = [(''port'', ''3307'')],
      mapping_options = [(''username'', ''app'')]\<rparr> svr_unset =
     Inl (Ereport ERRCODE_SYNTAX_ERROR ''either a table or a query must be specified'' None)"
proof -
  let ?opts = "[(''database'', ''shop'')] :: DefElem list"
  let ?cat = "\<lparr>table_options = ?opts, server_options = [(''port'', ''3307'')],
               mapping_options = [(''username'', ''app'')]\<rparr>"
  have neither: "\<forall>d \<in> set ?opts. defname d \<noteq> ''table'' \<and> defname d \<noteq> ''query''"
    by (simp add: defname_def)
  have layers: "table_options ?cat = ?opts"
    by simp
  have others: "\<forall>d \<in> set (server_options ?cat @ mapping_options ?cat).
                  defname d \<noteq> ''table'' \<and> defname d \<noteq> ''query''"
    by (simp add: defname_def)
  have valid: "(\<forall>d \<in> set ?opts. mysqlIsValidOption (defname d) ForeignTableRelationId) \<and>
               distinct (map defname ?opts)"
    by (simp add: valid_table_option defname_def)
  show ?thesis
    using table_or_query_required_only_at_resolution[OF neither layers others, of sample_env] valid
    by simp
qed

subsection \<open>The cost probe\<close>

lemma snprintf_fits: "length s < len \<Longrightarrow> snprintf len s = s"
  by (simp add: snprintf_def)

text \<open>The buffers of both callers are large enough: nothing is cut.\<close>

lemma plan_query_text:
  "plan_query s =
    (case svr_query s of
       Some q \<Rightarrow> Inr (''EXPLAIN '' @ q)
     | None \<Rightarrow> (case svr_table s of
                  None \<Rightarrow> Inl (Fault NullDereference)
                | Some t \<Rightarrow> Inr (''EXPLAIN SELECT * FROM '' @ t)))"
  by (simp add: plan_query_def snprintf_fits split: option.splits)

lemma begin_query_text:
  "begin_query s =
    (case svr_query s of
       Some q \<Rightarrow> Inr q
     | None \<Rightarrow> (case svr_table s of
                  None \<Rightarrow> Inl (Fault NullDereference)
                | Some t \<Rightarrow> Inr (''SELECT * FROM '' @ t)))"
  by (simp add: begin_query_def snprintf_fits split: option.splits)

lemma sent_mysql_close: "sent (mysql_close c b) = sent b"
  by (simp add: mysql_close_def)

lemma sent_plan_probe: "sent (snd (plan_probe e srv st c q b)) = sent b @ [q]"
  by (simp add: plan_probe_def mysql_query_def sent_mysql_close
      split: option.splits sum.splits bool.splits)

lemma sum_rows_sum_fields: "sum_rows e res rows = sum_fields e (remaining res) rows"
proof (induction e res rows rule: sum_rows.induct)
  case (1 e res rows)
  show ?case
  proof (cases "res_cursor res < length (res_rows res)")
    case False
    then show ?thesis
      by (subst sum_rows.simps) (simp add: mysql_fetch_row_def remaining_def)
  next
    case True
    let ?row = "res_rows res ! res_cursor res"
    let ?res' = "res\<lparr>res_cursor := Suc (res_cursor res)\<rparr>"
    have fetch: "mysql_fetch_row res = (Some ?row, ?res')"
      using True by (simp add: mysql_fetch_row_def)
    have rem: "remaining res = ?row # remaining ?res'"
      using True by (simp add: remaining_def Cons_nth_drop_Suc)
    show ?thesis
    proof (cases "8 < length ?row")
      case False
      then show ?thesis
        by (subst sum_rows.simps) (simp add: fetch rem)
    next
      case long: True
      show ?thesis
      proof (cases "?row ! 8")
        case None
        with long show ?thesis
          by (subst sum_rows.simps) (simp add: fetch rem)
      next
        case (Some field)
        have "sum_rows e ?res' (double_add e rows (atof e field)) =
              sum_fields e (remaining ?res') (double_add e rows (atof e field))"
          using "1.IH"[OF fetch[symmetric] refl long Some] .
        with long Some show ?thesis
          by (subst sum_rows.simps) (simp add: fetch rem)
      qed
    qed
  qed
qed

lemma sum_fields_defined:
  "(\<exists>v. sum_fields e rs acc = Inr v) \<longleftrightarrow> (\<forall>row \<in> set rs. 8 < length row \<and> row ! 8 \<noteq> None)"
  by (induction rs arbitrary: acc) (auto split: option.splits)

lemma sum_fields_fault:
  "sum_fields e rs acc = Inl err \<Longrightarrow> err = Fault ReadPastRow \<or> err = Fault NullDereference"
  by (induction rs arbitrary: acc) (auto split: option.splits if_splits)

lemma sum_fields_foldl:
  "\<forall>row \<in> set rs. 8 < length row \<and> row ! 8 \<noteq> None \<Longrightarrow>
   sum_fields e rs acc =
     Inr (foldl (\<lambda>rows row. case row ! 8 of
                              Some field \<Rightarrow> double_add e rows (atof e field)
                            | None \<Rightarrow> rows) acc rs)"
  by (induction rs arbitrary: acc) auto

lemma explain_output_rows:
  "\<forall>row \<in> set (remaining explain_output). 8 < length row \<and> row ! 8 \<noteq> None"
  by code_simp

text \<open>
  C5. A plan invocation whose options resolve, whose connection opens and whose probe
  returns rows with a ninth field returns a plan. Its startup cost is 10 when the
  resolved address is \<open>127.0.0.1\<close> or \<open>localhost\<close> and 25 otherwise; its row estimate is
  the sum, from 0 and in the order of the rows, of \<^verbatim>\<open>atof\<close> of the ninth field of every
  row of the probe; its total cost is the row estimate plus the startup cost. The
  additions are those of \<^verbatim>\<open>double\<close>.
\<close>

theorem plan_costs:
  assumes opts: "mysqlGetOptions e cat svr_unset = Inr s"
    and addr: "svr_address s = Some address"
    and init: "init_ok srv"
    and conn: "connect_ok srv address (svr_username s) (svr_password s)
                 (svr_database s) (svr_port s)"
    and q: "plan_query s = Inr q"
    and ok: "query_ok srv q"
    and res: "stored srv q = Some res"
    and rows: "\<forall>row \<in> set (remaining res). 8 < length row \<and> row ! 8 \<noteq> None"
  shows "\<exists>p b1. mysqlPlanForeignScan e srv cat b = (Inr p, b1) \<and>
           startup_cost p =
             (if address = ''127.0.0.1'' \<or> address = ''localhost''
              then double_of_int e 10 else double_of_int e 25) \<and>
           baserel_rows p =
             foldl (\<lambda>rows row. case row ! 8 of
                                 Some field \<Rightarrow> double_add e rows (atof e field)
                               | None \<Rightarrow> rows)
               (double_of_int e 0) (remaining res) \<and>
           total_cost p = double_add e (baserel_rows p) (startup_cost p)"
  using assms
  by (simp add: mysqlPlanForeignScan_def mysql_init_def plan_probe_def mysql_query_def
      mysql_store_result_def sum_rows_sum_fields sum_fields_foldl startup_cost_of_def)

theorem plan_costs_witness:
  "\<exists>p b1. mysqlPlanForeignScan sample_env (serving 10 (res_rows explain_output))
             orders_catalog backend0 = (Inr p, b1) \<and>
     startup_cost p = 10 \<and> baserel_rows p = 123 \<and> total_cost p = 133"
proof -
  let ?srv = "serving 10 (res_rows explain_output)"
  let ?q = "''EXPLAIN SELECT * FROM orders''"
  have addr: "svr_address orders_options = Some ''127.0.0.1''"
    by (simp add: orders_options_def)
  have init: "init_ok ?srv"
    by (simp add: serving_def)
  have conn: "connect_ok ?srv ''127.0.0.1'' (svr_username orders_options)
                (svr_password orders_options) (svr_database orders_options)
                (svr_port orders_options)"
    by (simp add: serving_def)
  have q: "plan_query orders_options = Inr ?q"
    by (simp add: plan_query_text orders_options_def)
  have ok: "query_ok ?srv ?q"
    by (simp add: serving_def)
  have res: "stored ?srv ?q = Some explain_output"
    by (simp add: serving_def explain_output_def)
  have total: "foldl (\<lambda>rows row. case row ! 8 of
                        Some field \<Rightarrow> double_add sample_env rows (atof sample_env field)
                      | None \<Rightarrow> rows)
                 (double_of_int sample_env 0) (remaining explain_output) = 123"
    by code_simp
  have ten: "double_of_int sample_env 10 = 10" and add: "double_add sample_env 123 10 = 133"
    by (simp_all add: sample_env_def)
  from plan_costs[OF orders_resolved addr init conn q ok res explain_output_rows, of backend0]
  obtain p b1 where
    ret: "mysqlPlanForeignScan sample_env ?srv orders_catalog backend0 = (Inr p, b1)" and
    st: "startup_cost p = 10" and
    rw: "baserel_rows p = 123" and
    tc: "total_cost p = double_add sample_env (baserel_rows p) (startup_cost p)"
    by (auto simp: total ten)
  from tc st rw have "total_cost p = 133"
    by (simp add: add)
  with ret st rw show ?thesis by blast
qed

lemma get_option_fields:
  "get_option e s d =
    \<lparr>svr_address = (if defname d = ''address'' then Some (defGetString d) else svr_address s),
     svr_port = (if defname d = ''port'' then atoi e (defGetString d) else svr_port s),
     svr_username = (if defname d = ''username'' then Some (defGetString d) else svr_username s),
     svr_password = (if defname d = ''password'' then Some (defGetString d) else svr_password s),
     svr_database = (if defname d = ''database'' then Some (defGetString d) else svr_database s),
     svr_query = (if defname d = ''query'' then Some (defGetString d) else svr_query s),
     svr_table = (if defname d = ''table'' then Some (defGetString d) else svr_table s)\<rparr>"
  by (simp add: get_option_def Let_def)

lemma get_options_loop_last:
  "get_options_loop e s opts =
    \<lparr>svr_address = (case last_value ''address'' opts of None \<Rightarrow> svr_address s | Some v \<Rightarrow> Some v),
     svr_port = (case last_value ''port'' opts of None \<Rightarrow> svr_port s | Some v \<Rightarrow> atoi e v),
     svr_username = (case last_value ''username'' opts of None \<Rightarrow> svr_username s | Some v \<Rightarrow> Some v),
     svr_password = (case last_value ''password'' opts of None \<Rightarrow> svr_password s | Some v \<Rightarrow> Some v),
     svr_database = (case last_value ''database'' opts of None \<Rightarrow> svr_database s | Some v \<Rightarrow> Some v),
     svr_query = (case last_value ''query'' opts of None \<Rightarrow> svr_query s | Some v \<Rightarrow> Some v),
     svr_table = (case last_value ''table'' opts of None \<Rightarrow> svr_table s | Some v \<Rightarrow> Some v)\<rparr>"
proof (induction opts arbitrary: s)
  case Nil
  show ?case by simp
next
  case (Cons d ds)
  show ?case
    by (simp only: get_options_loop.simps Cons.IH) (simp add: get_option_fields split: option.splits)
qed

text \<open>What resolution yields, read off the merged list of the catalog.\<close>

lemma mysqlGetOptions_from_catalog:
  assumes "opts = table_options cat @ server_options cat @ mapping_options cat"
  shows "mysqlGetOptions e cat svr_unset =
    (if last_value ''table'' opts = None \<and> last_value ''query'' opts = None
     then Inl (Ereport ERRCODE_SYNTAX_ERROR ''either a table or a query must be specified'' None)
     else Inr
       \<lparr>svr_address = Some (case last_value ''address'' opts of None \<Rightarrow> ''127.0.0.1'' | Some a \<Rightarrow> a),
        svr_port = (case last_value ''port'' opts of
                      None \<Rightarrow> 3306
                    | Some v \<Rightarrow> (if atoi e v = 0 then 3306 else atoi e v)),
        svr_username = last_value ''username'' opts,
        svr_password = last_value ''password'' opts,
        svr_database = last_value ''database'' opts,
        svr_query = last_value ''query'' opts,
        svr_table = last_value ''table'' opts\<rparr>)"
  unfolding assms
  by (simp add: mysqlGetOptions_def Let_def get_options_loop_last svr_unset_def
      split: option.splits)

text \<open>
  C6. Take the merged option list of the catalog (table, then server, then user
  mapping), with a \<open>query\<close> or a \<open>table\<close> entry in it, and a server that opens the
  connection for the resolved address, user, password, database and port. The query
  kept in the scan state by begin is the value of the last \<open>query\<close> entry, as it is,
  when there is one, and \<open>SELECT * FROM\<close> followed by the value of the last \<open>table\<close>
  entry when there is no \<open>query\<close> entry; the one query that the plan of the same
  table sends is \<open>EXPLAIN\<close>, a space, and that query. (Validation excludes a list that
  has both a query and a table.)
\<close>

theorem effective_query:
  assumes merged: "opts = table_options cat @ server_options cat @ mapping_options cat"
    and given: "last_value ''query'' opts \<noteq> None \<or> last_value ''table'' opts \<noteq> None"
    and init: "init_ok srv"
    and conn: "connect_ok srv
                 (case last_value ''address'' opts of None \<Rightarrow> ''127.0.0.1'' | Some a \<Rightarrow> a)
                 (last_value ''username'' opts) (last_value ''password'' opts)
                 (last_value ''database'' opts)
                 (case last_value ''port'' opts of
                    None \<Rightarrow> 3306
                  | Some v \<Rightarrow> (if atoi e v = 0 then 3306 else atoi e v))"
  shows "\<exists>eff b1.
      (\<forall>q. last_value ''query'' opts = Some q \<longrightarrow> eff = q) \<and>
      (\<forall>t. last_value ''query'' opts = None \<and> last_value ''table'' opts = Some t
           \<longrightarrow> eff = ''SELECT * FROM '' @ t) \<and>
      mysqlBeginForeignScan e srv cat b =
        (Inr \<lparr>conn = Some (next_handle b), result = None, query = Some eff,
              num_fields = 0\<rparr>, b1) \<and>
      sent (snd (mysqlPlanForeignScan e srv cat b)) = sent b @ [''EXPLAIN '' @ eff]"
proof (cases "last_value ''query'' opts")
  case (Some q)
  then show ?thesis
    using init conn
    by (simp add: mysqlBeginForeignScan_def mysqlPlanForeignScan_def mysql_init_def
        mysqlGetOptions_from_catalog[OF merged] plan_query_text begin_query_text
        sent_plan_probe)
next
  case None
  with given obtain t where t: "last_value ''table'' opts = Some t"
    by auto
  with None show ?thesis
    using init conn
    by (simp add: mysqlBeginForeignScan_def mysqlPlanForeignScan_def mysql_init_def
        mysqlGetOptions_from_catalog[OF merged] plan_query_text begin_query_text
        sent_plan_probe)
qed

theorem effective_query_witness:
  "(\<exists>b1. mysqlBeginForeignScan sample_env (serving 1 []) orders_catalog backend0 =
      (Inr \<lparr>conn = Some 0, result = None, query = Some ''SELECT * FROM orders'',
            num_fields = 0\<rparr>, b1)) \<and>
   sent (snd (mysqlPlanForeignScan sample_env (serving 1 []) orders_catalog backend0)) =
     [''EXPLAIN SELECT * FROM orders''] \<and>
   (\<exists>b1. mysqlBeginForeignScan sample_env (serving 1 []) report_catalog backend0 =
      (Inr \<lparr>conn = Some 0, result = None, query = Some ''SELECT id FROM t WHERE x>1'',
            num_fields = 0\<rparr>, b1)) \<and>
   sent (snd (mysqlPlanForeignScan sample_env (serving 1 []) report_catalog backend0)) =
     [''EXPLAIN SELECT id FROM t WHERE x>1'']"
proof -
  let ?srv = "serving 1 []"
  let ?topts = "[(''table'', ''orders'')] :: DefElem list"
  let ?qopts = "[(''database'', ''shop''), (''query'', ''SELECT id FROM t WHERE x>1''),
                 (''address'', ''db.example.com''), (''port'', ''3307''),
                 (''username'', ''app''), (''password'', ''secret'')] :: DefElem list"
  have init: "init_ok ?srv"
    by (simp add: serving_def)
  have any: "connect_ok ?srv a u p d n" for a u p d n
    by (simp add: serving_def)
  have tm: "?topts = table_options orders_catalog @ server_options orders_catalog @
              mapping_options orders_catalog"
    by (simp add: orders_catalog_def)
  have tq: "last_value ''query'' ?topts = None" and tt: "last_value ''table'' ?topts = Some ''orders''"
    by (simp_all add: defname_def defGetString_def)
  have qm: "?qopts = table_options report_catalog @ server_options report_catalog @
              mapping_options report_catalog"
    by (simp add: report_catalog_def)
  have qq: "last_value ''query'' ?qopts = Some ''SELECT id FROM t WHERE x>1''"
    by (simp add: defname_def defGetString_def)
  from tt have tg: "last_value ''query'' ?topts \<noteq> None \<or> last_value ''table'' ?topts \<noteq> None"
    by simp
  from qq have qg: "last_value ''query'' ?qopts \<noteq> None \<or> last_value ''table'' ?qopts \<noteq> None"
    by simp
  from effective_query[OF tm tg init any, of sample_env backend0]
  obtain eff b1 where
    "\<forall>t. last_value ''query'' ?topts = None \<and> last_value ''table'' ?topts = Some t
        \<longrightarrow> eff = ''SELECT * FROM '' @ t" and
    "mysqlBeginForeignScan sample_env ?srv orders_catalog backend0 =
        (Inr \<lparr>conn = Some (next_handle backend0), result = None, query = Some eff,
              num_fields = 0\<rparr>, b1)" and
    "sent (snd (mysqlPlanForeignScan sample_env ?srv orders_catalog backend0)) =
        sent backend0 @ [''EXPLAIN '' @ eff]"
    by blast
  with tq tt have table_path:
    "(\<exists>b1. mysqlBeginForeignScan sample_env ?srv orders_catalog backend0 =
        (Inr \<lparr>conn = Some 0, result = None, query = Some ''SELECT * FROM orders'',
              num_fields = 0\<rparr>, b1)) \<and>
     sent (snd (mysqlPlanForeignScan sample_env ?srv orders_catalog backend0)) =
       [''EXPLAIN SELECT * FROM orders'']"
    by (auto simp: backend0_def)
  from effective_query[OF qm qg init any, of sample_env backend0]
  obtain eff2 b2 where
    "\<forall>q. last_value ''query'' ?qopts = Some q \<longrightarrow> eff2 = q" and
    "mysqlBeginForeignScan sample_env ?srv report_catalog backend0 =
        (Inr \<lparr>conn = Some (next_handle backend0), result = None, query = Some eff2,
              num_fields = 0\<rparr>, b2)" and
    "sent (snd (mysqlPlanForeignScan sample_env ?srv report_catalog backend0)) =
        sent backend0 @ [''EXPLAIN '' @ eff2]"
    by blast
  with qq have query_path:
    "(\<exists>b1. mysqlBeginForeignScan sample_env ?srv report_catalog backend0 =
        (Inr \<lparr>conn = Some 0, result = None, query = Some ''SELECT id FROM t WHERE x>1'',
              num_fields = 0\<rparr>, b1)) \<and>
     sent (snd (mysqlPlanForeignScan sample_env ?srv report_catalog backend0)) =
       [''EXPLAIN SELECT id FROM t WHERE x>1'']"
    by (auto simp: backend0_def)
  from table_path query_path show ?thesis by simp
qed

text \<open>
  C10. The loop of the probe reads the ninth field of every row it fetches, with no
  test of the row's length nor of the field. It yields a sum exactly when every row
  still to fetch has at least nine fields and a ninth field that is not \<^verbatim>\<open>NULL\<close>; when
  it yields none, what happened is a read past the row or of a null pointer.
\<close>

theorem explain_rows_precondition:
  "((\<exists>rows. sum_rows e res r0 = Inr rows) \<longleftrightarrow>
      (\<forall>row \<in> set (remaining res). 9 \<le> length row \<and> row ! 8 \<noteq> None)) \<and>
   (\<forall>err. sum_rows e res r0 = Inl err \<longrightarrow>
      err = Fault ReadPastRow \<or> err = Fault NullDereference)"
proof -
  have "(9 \<le> length row) = (8 < length row)" for row :: MYSQL_ROW
    by auto
  then show ?thesis
    by (simp add: sum_rows_sum_fields sum_fields_defined) (blast dest: sum_fields_fault)
qed

theorem explain_rows_precondition_witness:
  "list_all (\<lambda>row. 9 \<le> length row \<and> row ! 8 \<noteq> None) (remaining explain_output) \<and>
   (\<exists>rows. sum_rows sample_env explain_output 0 = Inr rows) \<and>
   sum_rows sample_env (explain_output\<lparr>res_rows := [[Some ''1'']]\<rparr>) 0 = Inl (Fault ReadPastRow)"
proof -
  have pre: "\<forall>row \<in> set (remaining explain_output). 9 \<le> length row \<and> row ! 8 \<noteq> None"
    by code_simp
  have short: "sum_rows sample_env (explain_output\<lparr>res_rows := [[Some ''1'']]\<rparr>) 0 =
                 Inl (Fault ReadPastRow)"
    by code_simp
  from explain_rows_precondition[of sample_env explain_output 0] pre
  have "\<exists>rows. sum_rows sample_env explain_output 0 = Inr rows"
    by blast
  with pre short show ?thesis
    by (simp add: list_all_iff)
qed

subsection \<open>Sessions\<close>

text \<open>
  Once the connection is open, the probe closes it on every exit apart from the
  faults of its loop.
\<close>

lemma plan_probe_closes:
  assumes "plan_probe e srv st c q b = (r, b1)"
    and "\<forall>f. r \<noteq> Inl (Fault f)"
  shows "c \<notin> open_handles b1"
proof (cases "query_ok srv q")
  case False
  with assms(1) show ?thesis
    by (auto simp: plan_probe_def mysql_query_def mysql_close_def)
next
  case True
  show ?thesis
  proof (cases "stored srv q")
    case None
    with True assms(1) show ?thesis
      by (auto simp: plan_probe_def mysql_query_def mysql_store_result_def mysql_close_def)
  next
    case (Some res)
    show ?thesis
    proof (cases "sum_fields e (remaining res) (double_of_int e 0)")
      case (Inl err)
      with True Some assms(1) have "r = Inl err"
        by (auto simp: plan_probe_def mysql_query_def mysql_store_result_def
            sum_rows_sum_fields)
      with sum_fields_fault[OF Inl] assms(2) show ?thesis by auto
    next
      case (Inr rows)
      with True Some assms(1) show ?thesis
        by (auto simp: plan_probe_def mysql_query_def mysql_store_result_def
            sum_rows_sum_fields mysql_close_def)
    qed
  qed
qed

text \<open>So does the first call of iterate on its two error exits.\<close>

lemma iterate_execute_closes:
  assumes "iterate_execute srv festate b = (Some (Ereport code msg hint), f1, b1)"
    and "conn festate = Some c"
  shows "c \<notin> open_handles b1"
  using assms
  by (auto simp: iterate_execute_def mysql_query_def mysql_close_def
      split: option.splits bool.splits if_splits)

text \<open>
  C3. As stated: from the attempt to connect on, every exit of the probe and of the
  scan closes the session before the error leaves, a failed connect included. On a
  server that refuses the connection, the plan and the begin of the sample table both
  raise the connection error with the handle that \<^verbatim>\<open>mysql_init\<close> returned still open:
  handle 0 is among the open handles of the state they leave.
\<close>

theorem connect_failure_leaves_handle_open:
  "mysqlPlanForeignScan sample_env refusing orders_catalog backend0 =
     (Inl (connect_failed refusing), backend1) \<and>
   mysqlBeginForeignScan sample_env refusing orders_catalog backend0 =
     (Inl (connect_failed refusing), backend1) \<and>
   open_handles backend0 = {} \<and> 0 \<in> open_handles backend1"
  by code_simp

subsection \<open>The session field of the scan state\<close>

lemma begin_conn_live:
  "mysqlBeginForeignScan e srv cat b = (Inr festate, b1) \<Longrightarrow> conn_live festate b1"
  by (auto simp: mysqlBeginForeignScan_def mysql_init_def conn_live_def
      split: sum.splits option.splits if_splits)

lemma rescan_conn_live:
  "conn_live festate b \<Longrightarrow> conn_live (mysqlReScanForeignScan festate) b"
  by (simp add: mysqlReScanForeignScan_def conn_live_def split: option.splits)

lemma end_conn_live:
  "mysqlEndForeignScan festate b = (f1, b1) \<Longrightarrow> conn f1 = None \<and> conn_live f1 b1"
  by (auto simp: mysqlEndForeignScan_def conn_live_def Let_def split: option.splits)

lemma iterate_conn_live:
  assumes "conn_live festate b"
    and "mysqlIterateForeignScan e srv attrs festate b = (Inr slot, f1, b1)"
  shows "conn_live f1 b1"
  using assms
  by (auto simp: mysqlIterateForeignScan_def iterate_execute_def iterate_fetch_def
      mysql_query_def conn_live_def
      split: prod.splits option.splits sum.splits bool.splits)

text \<open>
  C4. As stated: every operation of the lifecycle, the error exits of iterate
  included, leaves the session field null unless the connection is live. Begin,
  rescan, end and the returns of iterate do (the four lemmas above). The error exits
  of iterate do not: on a server that fails the query, the scan of the sample table
  begins in a state that satisfies the invariant, and its first iterate raises the
  query error, closes handle 0 and leaves the field pointing at it.
\<close>

theorem iterate_error_exit_keeps_closed_handle:
  "mysqlBeginForeignScan sample_env failing orders_catalog backend0 =
     (Inr orders_festate, backend1) \<and>
   conn_live orders_festate backend1 \<and>
   mysqlIterateForeignScan sample_env failing [text_column] orders_festate backend1 =
     (Inl (query_failed failing), orders_festate,
      backend1\<lparr>open_handles := {}, sent := [''SELECT * FROM orders'']\<rparr>) \<and>
   conn orders_festate = Some 0 \<and>
   \<not> conn_live orders_festate
       (backend1\<lparr>open_handles := {}, sent := [''SELECT * FROM orders'']\<rparr>)"
  by code_simp

subsection \<open>Rows\<close>

lemma skip_dropped_length:
  "skip_dropped attrs y cells ds = Inr (y1, cells1, ds1) \<Longrightarrow> length cells1 = length cells"
proof (induction attrs y cells ds rule: skip_dropped.induct)
  case (1 attrs y cells ds)
  show ?case
  proof (cases "y < length attrs \<and> attisdropped (attrs ! y) \<and> y < length cells")
    case True
    with "1.prems" have "skip_dropped attrs (Suc y) (cells[y := IsNull])
        (ds @ [NOTICE (''attisdropped['' @ format_d y @ '']'')]) = Inr (y1, cells1, ds1)"
      by (subst (asm) skip_dropped.simps) simp
    with "1.IH" True show ?thesis by simp
  next
    case False
    with "1.prems" show ?thesis
      by (subst (asm) skip_dropped.simps) (auto split: if_splits)
  qed
qed

lemma fill_row_length:
  "fill_row e attrs row ls n x y cells ds = (Inr cells', ds') \<Longrightarrow> length cells' = length cells"
proof (induction e attrs row ls n x y cells ds rule: fill_row.induct)
  case (1 e attrs row ls n x y cells ds)
  show ?case
  proof (cases "x < n")
    case False
    with "1.prems" show ?thesis
      by (subst (asm) fill_row.simps) simp
  next
    case True
    from "1.prems" True obtain y1 cells1 ds1 where
      skip: "skip_dropped attrs y cells ds = Inr (y1, cells1, ds1)"
      by (subst (asm) fill_row.simps) (auto split: sum.splits)
    from "1.prems" True skip have inb: "x < length row" "y1 < length cells1"
      by (subst (asm) fill_row.simps, auto split: if_splits)+
    from "1.prems" True skip inb obtain v ds2 where
      conv: "convert_field e (attrs ! y1) (row ! x) (ls ! x) = (Inr v, ds2)" and
      rec: "fill_row e attrs row ls n (Suc x) (Suc y1) (cells1[y1 := v]) (ds1 @ ds2) =
              (Inr cells', ds')"
      by (subst (asm) fill_row.simps) (auto split: sum.splits prod.splits)
    have "length cells' = length (cells1[y1 := v])"
      using "1.IH"[OF True skip refl refl _ _ conv[symmetric] refl rec] inb by simp
    with skip_dropped_length[OF skip] show ?thesis by simp
  qed
qed

text \<open>
  The arrays that iterate stores in the slot have as many positions as the remote
  result has fields, whatever the length of the host's descriptor.
\<close>

lemma iterate_row_length:
  assumes "mysqlIterateForeignScan e srv attrs festate b = (Inr (Some cells), f1, b1)"
  shows "length cells = num_fields f1"
  using assms
  by (auto simp: mysqlIterateForeignScan_def iterate_fetch_def iterate_execute_def
      split: prod.splits option.splits sum.splits bool.splits dest!: fill_row_length)

text \<open>
  C1. As stated: with a dropped column at position \<open>k\<close> of the host's descriptor, every
  row that iterate emits has the length of the descriptor and is null at \<open>k\<close>. For the
  descriptor of a text column followed by a dropped column (\<open>k = 1\<close>) and a remote
  result of one field, iterate stores arrays of one position: the loop ends with the
  last remote field, so the dropped column after it is never written, and the arrays
  were allocated for the remote field count.
\<close>

theorem trailing_dropped_column_is_not_emitted:
  "mysqlIterateForeignScan sample_env (serving 1 [[Some ''a'']])
     [text_column, dropped_column] orders_festate backend1 =
   (Inr (Some [Value ''a'']),
    orders_festate\<lparr>result := Some \<lparr>res_fields = 1, res_rows = [[Some ''a'']], res_cursor = 1\<rparr>,
      num_fields := 1\<rparr>,
    backend1\<lparr>sent := [''SELECT * FROM orders'']\<rparr>) \<and>
   attisdropped ([text_column, dropped_column] ! 1) \<and>
   length [Value ''a'' :: string entry] < length [text_column, dropped_column]"
  by code_simp

text \<open>
  C2. As stated: a string field that is invalid in the host's encoding raises no
  error, is reported by a warning that shows at most 8 of its bytes as a hex dump, and
  becomes null, and the fields after it are still converted. For a field of ten bytes
  that starts with 0xff, iterate raises no error, emits null for it and converts the
  next field; but the text of its warning ends with the ten bytes themselves, and the
  hex dump \<open>0xff\<close> that the function built in \<^verbatim>\<open>buf\<close> appears nowhere.
\<close>

theorem encoding_warning_reports_raw_bytes:
  "mysqlIterateForeignScan sample_env (serving 2 [[Some bad_text, Some ''ok'']])
     [text_column, text_column] orders_festate backend1 =
   (Inr (Some [IsNull, Value ''ok'']),
    orders_festate\<lparr>result := Some \<lparr>res_fields = 2,
        res_rows = [[Some bad_text, Some ''ok'']], res_cursor = 1\<rparr>,
      num_fields := 2\<rparr>,
    backend1\<lparr>sent := [''SELECT * FROM orders''],
      emitted := [WARNING ERRCODE_CHARACTER_NOT_IN_REPERTOIRE
        (''invalid byte sequence for encoding '' @ [CHR 0x22] @ ''SEVENBIT'' @ [CHR 0x22] @
         '': '' @ bad_text)]\<rparr>) \<and>
   verify_buf sample_env bad_text (length bad_text) = ''0xff'' \<and>
   length bad_text = 10"
  by code_simp

end
